theory Spec2Isabelle
  imports Main
begin

section \<open>Package pattern resolution and lazy import (packages/load.go)\<close>

text \<open>
  A shallow embedding of \<^verbatim>\<open>packages/load.go\<close>: \<^verbatim>\<open>List\<close> expands package
  patterns against a module's source tree, \<^verbatim>\<open>NewImporter\<close> and \<^verbatim>\<open>Import\<close> load
  compiled type information lazily. Go strings are byte strings (\<^typ>\<open>string\<close>), a nil
  pointer or nil map is \<open>None\<close>, a pair of results \<^verbatim>\<open>(x, err)\<close> is a pair whose second
  component is an \<^typ>\<open>'a option\<close> (\<open>None\<close> for a nil error).
\<close>

subsection \<open>Errors\<close>

datatype errno = ENOENT | ENOTDIR | EACCES | EISDIR

text \<open>
  \<open>Errno\<close> is a bare \<^verbatim>\<open>syscall.Errno\<close>, \<open>PathError op path e\<close> the \<^verbatim>\<open>*fs.PathError\<close>
  that package \<^verbatim>\<open>os\<close> returns, \<open>ErrorString\<close> an error made by \<^verbatim>\<open>fmt.Errorf\<close> or
  \<^verbatim>\<open>errors.New\<close>. \<open>NilDereference\<close> is not an error value: it stands for the run-time
  panic of a method call through a nil pointer.
\<close>

datatype error =
    Errno errno
  | PathError string string errno
  | ErrorString string
  | NilDereference

subsection \<open>Package \<^verbatim>\<open>strings\<close>\<close>

definition HasPrefix :: "string \<Rightarrow> string \<Rightarrow> bool" where
  "HasPrefix s pre = (take (length pre) s = pre)"

definition HasSuffix :: "string \<Rightarrow> string \<Rightarrow> bool" where
  "HasSuffix s suf = (length suf \<le> length s \<and> drop (length s - length suf) s = suf)"

text \<open>\<^verbatim>\<open>strings.Split(s, "/")\<close>: the elements between the slashes, at least one.\<close>

fun splitSlash :: "string \<Rightarrow> string list" where
  "splitSlash [] = [[]]"
| "splitSlash (c # cs) =
     (if c = CHR ''/'' then [] # splitSlash cs
      else (case splitSlash cs of [] \<Rightarrow> [[c]] | x # xs \<Rightarrow> (c # x) # xs))"

text \<open>\<^verbatim>\<open>strings.Join(elems, "/")\<close>.\<close>

fun joinSlash :: "string list \<Rightarrow> string" where
  "joinSlash [] = []"
| "joinSlash [x] = x"
| "joinSlash (x # y # ys) = x @ ''/'' @ joinSlash (y # ys)"

subsection \<open>Packages \<^verbatim>\<open>path\<close> and \<^verbatim>\<open>path/filepath\<close> (Unix)\<close>

text \<open>
  \<^verbatim>\<open>Clean\<close> reads the path element by element and keeps a buffer of the elements
  written so far (here a list, last element first): empty elements and \<^verbatim>\<open>.\<close> are
  dropped; \<^verbatim>\<open>..\<close> removes the last written element when there is one that is not
  itself \<^verbatim>\<open>..\<close>, is dropped at the top of a rooted path, and is written otherwise.
\<close>

definition cleanStep :: "bool \<Rightarrow> string \<Rightarrow> string list \<Rightarrow> string list" where
  "cleanStep rooted e out =
     (if e = [] \<or> e = ''.'' then out
      else if e = ''..'' then
        (case out of
           [] \<Rightarrow> (if rooted then [] else [''..''])
         | x # xs \<Rightarrow> (if x = ''..'' then ''..'' # out else xs))
      else e # out)"

definition Clean :: "string \<Rightarrow> string" where
  "Clean p =
     (if p = [] then ''.''
      else
        let rooted = (hd p = CHR ''/'');
            out = rev (fold (cleanStep rooted) (splitSlash p) [])
        in if rooted then ''/'' @ joinSlash out
           else if out = [] then ''.'' else joinSlash out)"

text \<open>
  \<^verbatim>\<open>path.Join\<close> and \<^verbatim>\<open>filepath.Join\<close>: leading empty elements are ignored, the rest
  is joined with slashes and cleaned; the result is empty when every element is.
\<close>

fun Join :: "string list \<Rightarrow> string" where
  "Join [] = []"
| "Join (e # es) = (if e = [] then Join es else Clean (joinSlash (e # es)))"

text \<open>\<^verbatim>\<open>filepath.ToSlash\<close> is the identity where the separator is the slash.\<close>

definition ToSlash :: "string \<Rightarrow> string" where
  "ToSlash p = p"

text \<open>
  \<^verbatim>\<open>path.Ext\<close>: the suffix beginning at the last dot of the last slash-separated
  element, empty when that element has no dot. \<open>extFrom\<close> is the backwards loop, run
  over the reversed name with the bytes already passed in \<open>acc\<close>.
\<close>

fun extFrom :: "string \<Rightarrow> string \<Rightarrow> string" where
  "extFrom [] acc = []"
| "extFrom (c # cs) acc =
     (if c = CHR ''/'' then []
      else if c = CHR ''.'' then c # acc
      else extFrom cs (c # acc))"

definition Ext :: "string \<Rightarrow> string" where
  "Ext p = extFrom (rev p) []"

text \<open>
  \<^verbatim>\<open>filepath.Rel\<close>. \<open>relLoop\<close> is its loop that skips the leading elements \<open>base\<close>
  and \<open>targ\<close> share: it takes what is left of both (from \<^verbatim>\<open>b0\<close> and \<^verbatim>\<open>t0\<close> on) and
  returns what is left when it stops, with the element \<^verbatim>\<open>base[b0:bi]\<close> it stopped at
  (empty unless it stopped at a difference).
\<close>

definition firstElem :: "string \<Rightarrow> string" where
  "firstElem s = takeWhile (\<lambda>c. c \<noteq> CHR ''/'') s"

function relLoop :: "string \<Rightarrow> string \<Rightarrow> string \<times> string \<times> string" where
  "relLoop rb rt =
     (if rb = [] \<or> rt = [] then (rb, rt, [])
      else if firstElem rt \<noteq> firstElem rb then (rb, rt, firstElem rb)
      else relLoop (drop (Suc (length (firstElem rb))) rb)
                   (drop (Suc (length (firstElem rt))) rt))"
  by pat_completeness auto
termination
  by (relation "measure (\<lambda>(rb, rt). length rb)") auto

declare relLoop.simps [simp del]

definition Rel :: "string \<Rightarrow> string \<Rightarrow> string \<times> error option" where
  "Rel basepath targpath =
     (let base = Clean basepath; targ = Clean targpath in
      if targ = base then (''.'', None)
      else
        let base = (if base = ''.'' then [] else base);
            baseSlashed = (base \<noteq> [] \<and> hd base = CHR ''/'');
            targSlashed = (targ \<noteq> [] \<and> hd targ = CHR ''/'')
        in if baseSlashed \<noteq> targSlashed
           then ([], Some (ErrorString (''Rel: can't make '' @ targpath @ '' relative to '' @ basepath)))
           else
             (case relLoop base targ of (rb, rt, cur) \<Rightarrow>
                if cur = ''..''
                then ([], Some (ErrorString (''Rel: can't make '' @ targpath @ '' relative to '' @ basepath)))
                else if rb \<noteq> []
                then (''..'' @ concat (replicate (count_list rb CHR ''/'') ''/..'')
                        @ (if rt \<noteq> [] then ''/'' @ rt else []), None)
                else (rt, None)))"

subsection \<open>The file system\<close>

text \<open>
  The file system is a finite tree: a regular file with its contents, a directory with
  its entries in the order \<^verbatim>\<open>os.ReadDir\<close> lists them, or a directory that the
  process may neither list nor search (\<open>Denied\<close>). Symbolic links are left out. The
  state of the operating system is the tree at \<^verbatim>\<open>/\<close> and the working directory of
  the process, \<open>None\<close> when it is not available; relative names cannot be resolved then.
\<close>

datatype fsnode = File string | Dir "(string \<times> fsnode) list" | Denied

record os_state =
  root :: fsnode
  wd :: "string option"

text \<open>\<^verbatim>\<open>os.Getwd\<close> fails when the working directory is not available.\<close>

definition Getwd :: "os_state \<Rightarrow> string \<times> error option" where
  "Getwd os = (case wd os of None \<Rightarrow> ([], Some (Errno ENOENT)) | Some d \<Rightarrow> (d, None))"

text \<open>
  Name resolution, as the kernel does it: one element at a time, from the root, keeping
  the directories passed (the current one first) so that \<^verbatim>\<open>..\<close> can step back.
\<close>

fun walkStep :: "string \<Rightarrow> errno + fsnode list \<Rightarrow> errno + fsnode list" where
  "walkStep e (Inl err) = Inl err"
| "walkStep e (Inr []) = Inl ENOENT"
| "walkStep e (Inr (File c # up)) = Inl ENOTDIR"
| "walkStep e (Inr (Denied # up)) = Inl EACCES"
| "walkStep e (Inr (Dir es # up)) =
     (if e = [] \<or> e = ''.'' then Inr (Dir es # up)
      else if e = ''..'' then (if up = [] then Inr [Dir es] else Inr up)
      else (case map_of es e of None \<Rightarrow> Inl ENOENT | Some n \<Rightarrow> Inr (n # Dir es # up)))"

definition resolve :: "os_state \<Rightarrow> string \<Rightarrow> errno + fsnode list" where
  "resolve os p =
     (if p = [] then Inl ENOENT
      else if hd p = CHR ''/'' then fold walkStep (splitSlash p) (Inr [root os])
      else (case wd os of
              None \<Rightarrow> Inl ENOENT
            | Some d \<Rightarrow> fold walkStep (splitSlash d @ splitSlash p) (Inr [root os])))"

datatype DirEntry = DirEntry (Name: string) (IsDir: bool)

text \<open>
  \<^verbatim>\<open>os.ReadDir\<close> gives the entries of a directory, each with its name and whether it is
  a directory, or an error; the entries read before an error are not used by the callers
  and are left empty. A directory never lists an empty name, \<^verbatim>\<open>.\<close>, \<^verbatim>\<open>..\<close> or a name
  with a slash, so such entries of the tree are passed over.
\<close>

definition validName :: "string \<Rightarrow> bool" where
  "validName n = (n \<noteq> [] \<and> n \<noteq> ''.'' \<and> n \<noteq> ''..'' \<and> CHR ''/'' \<notin> set n)"

definition isDirNode :: "fsnode \<Rightarrow> bool" where
  "isDirNode n = (case n of File c \<Rightarrow> False | _ \<Rightarrow> True)"

definition ReadDir :: "os_state \<Rightarrow> string \<Rightarrow> DirEntry list \<times> error option" where
  "ReadDir os name =
     (case resolve os name of
        Inl e \<Rightarrow> ([], Some (PathError ''open'' name e))
      | Inr [] \<Rightarrow> ([], Some (PathError ''open'' name ENOENT))
      | Inr (File c # up) \<Rightarrow> ([], Some (PathError ''readdirent'' name ENOTDIR))
      | Inr (Denied # up) \<Rightarrow> ([], Some (PathError ''open'' name EACCES))
      | Inr (Dir es # up) \<Rightarrow>
          (map (\<lambda>(n, node). DirEntry n (isDirNode node)) (filter (\<lambda>(n, node). validName n) es),
           None))"

text \<open>
  \<^verbatim>\<open>os.Open\<close> gives the node opened for reading, or a \<^verbatim>\<open>*PathError\<close>; the first
  component stands for the nil file then and is not used.
\<close>

definition Open :: "os_state \<Rightarrow> string \<Rightarrow> fsnode \<times> error option" where
  "Open os name =
     (case resolve os name of
        Inl e \<Rightarrow> (Denied, Some (PathError ''open'' name e))
      | Inr [] \<Rightarrow> (Denied, Some (PathError ''open'' name ENOENT))
      | Inr (Denied # up) \<Rightarrow> (Denied, Some (PathError ''open'' name EACCES))
      | Inr (n # up) \<Rightarrow> (n, None))"

text \<open>\<^verbatim>\<open>filepath.Abs\<close> (\<^verbatim>\<open>unixAbs\<close>).\<close>

definition Abs :: "os_state \<Rightarrow> string \<Rightarrow> string \<times> error option" where
  "Abs os p =
     (if HasPrefix p ''/'' then (Clean p, None)
      else (case Getwd os of
              (d, Some err) \<Rightarrow> ([], Some err)
            | (d, None) \<Rightarrow> (Join [d, p], None)))"

text \<open>
  The size of the directory tree a path names. The scan of a directory calls itself on
  the entries the directory lists, each of which names a smaller tree.
\<close>

fun nodeSize :: "fsnode \<Rightarrow> nat" where
  "nodeSize (File c) = 1"
| "nodeSize Denied = 1"
| "nodeSize (Dir es) = Suc (sum_list (map (\<lambda>(n, node). nodeSize node) es))"

definition sizeAt :: "os_state \<Rightarrow> string \<Rightarrow> nat" where
  "sizeAt os p = (case resolve os p of Inr (n # up) \<Rightarrow> nodeSize n | _ \<Rightarrow> 0)"

lemma splitSlash_not_Nil: "splitSlash s \<noteq> []"
  by (induction s) (auto split: list.splits)

lemma splitSlash_append: "splitSlash (a @ CHR ''/'' # b) = splitSlash a @ splitSlash b"
  by (induction a) (auto split: list.splits simp: splitSlash_not_Nil)

lemma splitSlash_noslash: "CHR ''/'' \<notin> set n \<Longrightarrow> splitSlash n = [n]"
  by (induction n) (auto split: list.splits)

lemma nodeSize_child: "(n, node) \<in> set es \<Longrightarrow> nodeSize node < nodeSize (Dir es)"
  by (induction es) auto

lemma resolve_child:
  assumes "resolve os pat = Inr (Dir es # up)" and "validName n"
  shows "resolve os (pat @ CHR ''/'' # n) = walkStep n (Inr (Dir es # up))"
proof -
  from assms(1) have ne: "pat \<noteq> []" by (auto simp: resolve_def)
  from assms(2) have sp: "splitSlash n = [n]" by (simp add: validName_def splitSlash_noslash)
  from ne have hd: "hd (pat @ CHR ''/'' # n) = hd pat" by simp
  show ?thesis
  proof (cases "hd pat = CHR ''/''")
    case True
    with assms(1) ne have "fold walkStep (splitSlash pat) (Inr [root os]) = Inr (Dir es # up)"
      by (simp add: resolve_def)
    with True ne show ?thesis
      by (simp add: resolve_def hd splitSlash_append sp del: walkStep.simps)
  next
    case False
    with assms(1) ne obtain d where d: "wd os = Some d"
      and "fold walkStep (splitSlash d @ splitSlash pat) (Inr [root os]) = Inr (Dir es # up)"
      by (auto simp: resolve_def split: option.splits)
    with False ne show ?thesis
      by (simp add: resolve_def hd splitSlash_append sp del: walkStep.simps)
  qed
qed

lemma sizeAt_child:
  assumes "(fis, None) = ReadDir os pat" and "fi \<in> set fis"
  shows "sizeAt os (pat @ CHR ''/'' # Name fi) < sizeAt os pat"
proof -
  from assms(1) obtain es up where r: "resolve os pat = Inr (Dir es # up)"
    and fis: "fis = map (\<lambda>(n, node). DirEntry n (isDirNode node)) (filter (\<lambda>(n, node). validName n) es)"
    by (auto simp: ReadDir_def split: sum.splits list.splits fsnode.splits)
  from assms(2) fis obtain node where m: "(Name fi, node) \<in> set es" and v: "validName (Name fi)"
    by auto
  from m obtain node' where mo: "map_of es (Name fi) = Some node'"
    by (meson weak_map_of_SomeI)
  then have "(Name fi, node') \<in> set es" by (rule map_of_SomeD)
  then have lt: "nodeSize node' < nodeSize (Dir es)" by (rule nodeSize_child)
  from v have "resolve os (pat @ CHR ''/'' # Name fi) = Inr (node' # Dir es # up)"
    using resolve_child [OF r v] mo by (simp add: validName_def)
  with r lt show ?thesis by (simp add: sizeAt_def)
qed

subsection \<open>Configuration\<close>

text \<open>
  A \<^verbatim>\<open>*types.Package\<close> is a pointer: \<open>None\<close> is nil, \<open>Some pkg\<close> points to the
  package object \<open>pkg\<close>, whose \<open>address\<close> tells two objects with equal fields apart.
\<close>

record Package =
  address :: nat
  path :: string
  complete :: bool

datatype FileSet = FileSet nat

record Config =
  ModRoot :: string
  ModPath :: string
  SupportedExts :: "string set option"
  Loaded :: "(string \<rightharpoonup> Package option) option"
  Fset :: "FileSet option"

text \<open>\<^verbatim>\<open>new(Config)\<close>: every field has its zero value.\<close>

definition new_Config :: Config where
  "new_Config = \<lparr>ModRoot = [], ModPath = [], SupportedExts = None, Loaded = None, Fset = None\<rparr>"

definition defaultSupportedExts :: "string set" where
  "defaultSupportedExts = {''.go''}"

definition getTempDir :: "Config \<Rightarrow> string" where
  "getTempDir p = Join [ModRoot p, ''.gop/_dummy'']"

subsection \<open>Listing packages\<close>

text \<open>
  \<^verbatim>\<open>doListPkgs\<close> scans one directory. The state of its loop is the pair of
  \<^verbatim>\<open>pkgPaths\<close> and \<^verbatim>\<open>noSouceFile\<close>; the error of a recursive call is dropped, as
  the blank identifier does.
\<close>

function doListPkgs ::
  "os_state \<Rightarrow> string list \<Rightarrow> string \<Rightarrow> string \<Rightarrow> string set \<Rightarrow> bool \<Rightarrow> string list \<times> error option"
where
  "doListPkgs os pkgPaths pkgPathBase pat exts recursive =
     (case ReadDir os pat of
        (fis, Some err) \<Rightarrow> (pkgPaths, Some err)
      | (fis, None) \<Rightarrow>
          (case fold
             (\<lambda>fi (pkgPaths, noSouceFile).
                if HasPrefix (Name fi) ''_'' then (pkgPaths, noSouceFile)
                else if IsDir fi then
                  (if recursive
                   then (fst (doListPkgs os pkgPaths (pkgPathBase @ ''/'' @ Name fi)
                                (pat @ ''/'' @ Name fi) exts True), noSouceFile)
                   else (pkgPaths, noSouceFile))
                else if noSouceFile then
                  (if Ext (Name fi) \<in> exts then (pkgPaths, False) else (pkgPaths, noSouceFile))
                else (pkgPaths, noSouceFile))
             fis (pkgPaths, True)
           of (pkgPaths, noSouceFile) \<Rightarrow>
             if \<not> noSouceFile then (pkgPaths @ [pkgPathBase], None) else (pkgPaths, None)))"
  by pat_completeness auto

termination
  by (relation "measure (\<lambda>(os, pkgPaths, pkgPathBase, pat, exts, recursive). sizeAt os pat)")
     (auto intro: sizeAt_child)

declare doListPkgs.simps [simp del]


text \<open>The body of the loop of \<^verbatim>\<open>doListPkgs\<close>, for one directory entry.\<close>

definition scanEntry ::
  "os_state \<Rightarrow> string \<Rightarrow> string \<Rightarrow> string set \<Rightarrow> bool \<Rightarrow> DirEntry \<Rightarrow> string list \<times> bool
     \<Rightarrow> string list \<times> bool"
where
  "scanEntry os pkgPathBase pat exts recursive fi st =
     (case st of (pkgPaths, noSouceFile) \<Rightarrow>
        if HasPrefix (Name fi) ''_'' then (pkgPaths, noSouceFile)
        else if IsDir fi then
          (if recursive
           then (fst (doListPkgs os pkgPaths (pkgPathBase @ ''/'' @ Name fi)
                        (pat @ ''/'' @ Name fi) exts True), noSouceFile)
           else (pkgPaths, noSouceFile))
        else if noSouceFile then
          (if Ext (Name fi) \<in> exts then (pkgPaths, False) else (pkgPaths, noSouceFile))
        else (pkgPaths, noSouceFile))"

definition multi :: string where
  "multi = ''/...''"

definition listPkgs ::
  "os_state \<Rightarrow> Config \<Rightarrow> string list \<Rightarrow> string \<Rightarrow> string \<Rightarrow> string list \<times> error option"
where
  "listPkgs os p pkgPaths pat modRoot =
     (let recursive = HasSuffix pat multi;
          pat = (if recursive
                 then (let pat = take (length pat - length multi) pat
                       in if pat = [] then ''/'' else pat)
                 else pat)
      in if HasPrefix pat ''.'' \<or> HasPrefix pat ''/'' then
           (case Abs os pat of (patAbs, err1) \<Rightarrow>
            case Rel modRoot patAbs of (patRel, err2) \<Rightarrow>
              if err1 \<noteq> None \<or> err2 \<noteq> None \<or> HasPrefix patRel ''..''
              then ([], Some (ErrorString (''directory `'' @ pat @ ''` outside available modules'')))
              else
                let exts = (case SupportedExts p of None \<Rightarrow> defaultSupportedExts | Some e \<Rightarrow> e);
                    pkgPathBase = Join [ModPath p, ToSlash patRel]
                in doListPkgs os pkgPaths pkgPathBase pat exts recursive)
         else (pkgPaths @ [pat], None))"

text \<open>The loop of \<^verbatim>\<open>List\<close> over the patterns: it returns at the first error.\<close>

fun listLoop ::
  "os_state \<Rightarrow> Config \<Rightarrow> string \<Rightarrow> string list \<Rightarrow> string list \<Rightarrow> string list \<times> error option"
where
  "listLoop os conf modRoot pkgPaths [] = (pkgPaths, None)"
| "listLoop os conf modRoot pkgPaths (pat # pattern) =
     (case listPkgs os conf pkgPaths pat modRoot of
        (pkgPaths', Some err) \<Rightarrow> (pkgPaths', Some err)
      | (pkgPaths', None) \<Rightarrow> listLoop os conf modRoot pkgPaths' pattern)"

definition List :: "os_state \<Rightarrow> Config option \<Rightarrow> string list \<Rightarrow> string list \<times> error option" where
  "List os conf pattern =
     (let conf = (case conf of None \<Rightarrow> new_Config | Some c \<Rightarrow> c);
          modRoot = fst (Abs os (ModRoot conf))
      in listLoop os conf modRoot [] pattern)"

subsection \<open>The importer\<close>

text \<open>
  The export-data decoder (\<^verbatim>\<open>golang.org/x/tools/go/gcexportdata\<close>) is outside this
  file and is a parameter: \<open>NewReader\<close> takes the opened file, \<open>Read\<close> takes the reader,
  the file set, the map of imports and the package path, and gives its results with the
  map of imports as it leaves it.
\<close>

type_synonym importsMap = "string \<rightharpoonup> Package option"

record gcexportdata =
  NewReader :: "fsnode \<Rightarrow> string \<times> error option"
  Read :: "string \<Rightarrow> FileSet \<Rightarrow> importsMap \<Rightarrow> string
            \<Rightarrow> (Package option \<times> error option) \<times> importsMap"

text \<open>
  The importer: \<open>pkgs\<close> gives the export file of a package path (a \<^verbatim>\<open>pkgExport\<close> is
  the name of the file), \<open>loaded\<close> is the cache of type packages.
\<close>

record Importer =
  pkgs :: "string \<rightharpoonup> string"
  loaded :: importsMap
  fset :: FileSet

text \<open>\<^verbatim>\<open>types.Unsafe\<close>, which the type checker marks complete, and \<^verbatim>\<open>token.NewFileSet()\<close>.\<close>

definition Unsafe :: Package where
  "Unsafe = \<lparr>address = 0, path = ''unsafe'', complete = True\<rparr>"

definition NewFileSet :: FileSet where
  "NewFileSet = FileSet 0"

text \<open>
  \<^verbatim>\<open>loadDeps\<close> is defined elsewhere in the package and is a parameter \<open>loadDeps\<close>: from
  the scratch directory and the package paths to the map of export files, or an error.
  When \<^verbatim>\<open>conf.Loaded\<close> is not nil the importer shares that map with the caller; the
  model gives the importer its own copy.
\<close>

definition NewImporter ::
  "(string \<Rightarrow> string list \<Rightarrow> (string \<rightharpoonup> string) \<times> error option) \<Rightarrow> os_state \<Rightarrow> Config option
     \<Rightarrow> string list \<Rightarrow> Importer option \<times> string list \<times> error option"
where
  "NewImporter loadDeps os conf pattern =
     (let conf = (case conf of None \<Rightarrow> new_Config | Some c \<Rightarrow> c) in
      case List os (Some conf) pattern of
        (pkgPaths, Some err) \<Rightarrow> (None, pkgPaths, Some err)
      | (pkgPaths, None) \<Rightarrow>
          (case loadDeps (getTempDir conf) pkgPaths of
             (pkgs', Some err) \<Rightarrow> (None, pkgPaths, Some err)
           | (pkgs', None) \<Rightarrow>
               let fset' = (case Fset conf of None \<Rightarrow> NewFileSet | Some f \<Rightarrow> f);
                   loaded' = (case Loaded conf of None \<Rightarrow> Map.empty | Some m \<Rightarrow> m);
                   loaded' = loaded'(''unsafe'' \<mapsto> Some Unsafe)
               in (Some \<lparr>pkgs = pkgs', loaded = loaded', fset = fset'\<rparr>, pkgPaths, None)))"

text \<open>
  \<^verbatim>\<open>Import\<close> and \<^verbatim>\<open>loadPkgExport\<close> return their two results and the importer, whose
  map \<open>loaded\<close> the decoder may have changed.
\<close>

definition loadPkgExport ::
  "gcexportdata \<Rightarrow> os_state \<Rightarrow> Importer \<Rightarrow> string \<Rightarrow> string
     \<Rightarrow> (Package option \<times> error option) \<times> Importer"
where
  "loadPkgExport gc os p expfile pkgPath =
     (case Open os expfile of
        (f, Some err) \<Rightarrow> ((None, Some err), p)
      | (f, None) \<Rightarrow>
          (case NewReader gc f of
             (r, Some err) \<Rightarrow> ((None, Some err), p)
           | (r, None) \<Rightarrow>
               (case Read gc r (fset p) (loaded p) pkgPath of
                  (res, loaded') \<Rightarrow> (res, p\<lparr>loaded := loaded'\<rparr>))))"

text \<open>What \<^verbatim>\<open>Import\<close> does when the cache has no complete package for the path.\<close>

definition importExport ::
  "gcexportdata \<Rightarrow> os_state \<Rightarrow> Importer \<Rightarrow> string \<Rightarrow> (Package option \<times> error option) \<times> Importer"
where
  "importExport gc os p pkgPath =
     (case pkgs p pkgPath of
        Some expfile \<Rightarrow> loadPkgExport gc os p expfile pkgPath
      | None \<Rightarrow> ((None, Some (Errno ENOENT)), p))"

text \<open>
  \<^verbatim>\<open>ret.Complete()\<close> reads a field of the package, so it panics when the map holds a
  nil pointer for the path.
\<close>

definition Import ::
  "gcexportdata \<Rightarrow> os_state \<Rightarrow> Importer \<Rightarrow> string \<Rightarrow> (Package option \<times> error option) \<times> Importer"
where
  "Import gc os p pkgPath =
     (case loaded p pkgPath of
        Some None \<Rightarrow> ((None, Some NilDereference), p)
      | Some (Some ret) \<Rightarrow>
          if complete ret then ((Some ret, None), p) else importExport gc os p pkgPath
      | None \<Rightarrow> importExport gc os p pkgPath)"

subsection \<open>Notions the properties are stated with\<close>

text \<open>
  A directory listing has a source file when one of its entries is not a directory, has
  a name that does not begin with an underscore, and has a recognized extension.
\<close>

definition hasSourceFile :: "string set \<Rightarrow> DirEntry list \<Rightarrow> bool" where
  "hasSourceFile exts fis =
     list_ex (\<lambda>fi. \<not> IsDir fi \<and> \<not> HasPrefix (Name fi) ''_'' \<and> Ext (Name fi) \<in> exts) fis"

text \<open>
  The module of the end-to-end example: root \<^verbatim>\<open>/m\<close>, module path
  \<^verbatim>\<open>example.com/m\<close>, the files \<^verbatim>\<open>/m/a/x.go\<close> and \<^verbatim>\<open>/m/b/sub/y.go\<close> with any
  contents, and the working directory at the module root.
\<close>

definition exampleTree :: "string \<Rightarrow> string \<Rightarrow> os_state" where
  "exampleTree cx cy =
     \<lparr>root = Dir [(''m'', Dir [(''a'', Dir [(''x.go'', File cx)]),
                               (''b'', Dir [(''sub'', Dir [(''y.go'', File cy)])])])],
      wd = Some ''/m''\<rparr>"

definition exampleConf :: Config where
  "exampleConf = \<lparr>ModRoot = ''/m'', ModPath = ''example.com/m'', SupportedExts = None,
                   Loaded = None, Fset = None\<rparr>"

text \<open>
  The directory a pattern names: the pattern without its recursive marker, the root
  directory when nothing is left. A pattern is a file-system pattern when this begins with
  a dot or a slash, and it lies outside the module when \<^verbatim>\<open>listPkgs\<close> finds that making
  it absolute fails, that making it relative to the module root fails, or that the
  relative path begins with two dots. \<open>absModRoot\<close> is the module root \<^verbatim>\<open>List\<close> works
  with.
\<close>

definition patDir :: "string \<Rightarrow> string" where
  "patDir pat =
     (if HasSuffix pat multi
      then (let pat = take (length pat - length multi) pat in if pat = [] then ''/'' else pat)
      else pat)"

definition isFsPattern :: "string \<Rightarrow> bool" where
  "isFsPattern pat = (HasPrefix (patDir pat) ''.'' \<or> HasPrefix (patDir pat) ''/'')"

definition outsideModule :: "os_state \<Rightarrow> string \<Rightarrow> string \<Rightarrow> bool" where
  "outsideModule os modRoot pat =
     (case Abs os (patDir pat) of (patAbs, err1) \<Rightarrow>
      case Rel modRoot patAbs of (patRel, err2) \<Rightarrow>
        err1 \<noteq> None \<or> err2 \<noteq> None \<or> HasPrefix patRel ''..'')"

definition absModRoot :: "os_state \<Rightarrow> Config \<Rightarrow> string" where
  "absModRoot os conf = fst (Abs os (ModRoot conf))"

text \<open>
  A module like the one above in which \<^verbatim>\<open>/m/locked\<close> is a directory that cannot be
  read and \<^verbatim>\<open>/m/z.go\<close> is a source file of the root.
\<close>

definition lockedTree :: os_state where
  "lockedTree =
     \<lparr>root = Dir [(''m'', Dir [(''a'', Dir [(''x.go'', File [])]),
                               (''locked'', Denied),
                               (''z.go'', File [])])],
      wd = Some ''/m''\<rparr>"

text \<open>
  What the importer relies on in the decoder. \<^verbatim>\<open>gcexportdata.Read\<close> is documented to
  insert the package it returns into the map of imports under the path it was given, and
  the package it has read is complete: \<open>readContract\<close>. Its errors and those of
  \<^verbatim>\<open>NewReader\<close> are made by the decoder or come from reading the file, so none is the
  bare error number \<^verbatim>\<open>syscall.ENOENT\<close>: \<open>decodeErrorsOwn\<close>.
\<close>

definition readContract :: "gcexportdata \<Rightarrow> bool" where
  "readContract gc =
     (\<forall>r fs imp pkgPath ret imp'.
        Read gc r fs imp pkgPath = ((ret, None), imp') \<longrightarrow>
        (\<exists>pkg. ret = Some pkg \<and> complete pkg \<and> imp' pkgPath = Some (Some pkg)))"

definition decodeErrorsOwn :: "gcexportdata \<Rightarrow> bool" where
  "decodeErrorsOwn gc =
     ((\<forall>f r err. NewReader gc f = (r, Some err) \<longrightarrow> err \<noteq> Errno ENOENT) \<and>
      (\<forall>r fs imp pkgPath ret err imp'.
         Read gc r fs imp pkgPath = ((ret, Some err), imp') \<longrightarrow> err \<noteq> Errno ENOENT))"

text \<open>
  A decoder, an importer and a dependency loader to try the properties on: the decoder
  reads any file that is not empty as a complete package, the importer knows the export
  file of one package, the loader finds no export files. \<open>emptyDisk\<close> is a file system
  from which every file is gone.
\<close>

definition exampleDecoder :: gcexportdata where
  "exampleDecoder =
     \<lparr>NewReader = (\<lambda>f. case f of File c \<Rightarrow> (c, None)
                               | _ \<Rightarrow> ([], Some (PathError ''read'' [] EISDIR))),
      Read = (\<lambda>r fs imp pkgPath.
                if r = [] then ((None, Some (ErrorString ''no export data'')), imp)
                else ((Some \<lparr>address = length r, path = pkgPath, complete = True\<rparr>, None),
                      imp(pkgPath \<mapsto> Some \<lparr>address = length r, path = pkgPath, complete = True\<rparr>)))\<rparr>"

definition exampleImporter :: Importer where
  "exampleImporter =
     \<lparr>pkgs = [''example.com/m/a'' \<mapsto> ''/m/a/x.go''],
      loaded = [''unsafe'' \<mapsto> Some Unsafe],
      fset = NewFileSet\<rparr>"

definition emptyDisk :: os_state where
  "emptyDisk = \<lparr>root = Dir [], wd = None\<rparr>"

definition noDeps :: "string \<Rightarrow> string list \<Rightarrow> (string \<rightharpoonup> string) \<times> error option" where
  "noDeps tempDir pkgPaths = (Map.empty, None)"

text \<open>An importer whose cache holds a nil pointer for a path that has no export file.\<close>

definition nilEntryImporter :: Importer where
  "nilEntryImporter =
     \<lparr>pkgs = Map.empty, loaded = [''example.com/q'' \<mapsto> None], fset = NewFileSet\<rparr>"

section \<open>Properties\<close>

subsection \<open>The loop of the scan\<close>

lemma doListPkgs_scan:
  "doListPkgs os pkgPaths pkgPathBase pat exts recursive =
     (case ReadDir os pat of
        (fis, Some err) \<Rightarrow> (pkgPaths, Some err)
      | (fis, None) \<Rightarrow>
          (case fold (scanEntry os pkgPathBase pat exts recursive) fis (pkgPaths, True) of
             (pkgPaths', noSouceFile) \<Rightarrow>
               if \<not> noSouceFile then (pkgPaths' @ [pkgPathBase], None) else (pkgPaths', None)))"
proof -
  have "scanEntry os pkgPathBase pat exts recursive =
        (\<lambda>fi (pkgPaths, noSouceFile).
                if HasPrefix (Name fi) ''_'' then (pkgPaths, noSouceFile)
                else if IsDir fi then
                  (if recursive
                   then (fst (doListPkgs os pkgPaths (pkgPathBase @ ''/'' @ Name fi)
                                (pat @ ''/'' @ Name fi) exts True), noSouceFile)
                   else (pkgPaths, noSouceFile))
                else if noSouceFile then
                  (if Ext (Name fi) \<in> exts then (pkgPaths, False) else (pkgPaths, noSouceFile))
                else (pkgPaths, noSouceFile))"
    by (intro ext) (simp add: scanEntry_def)
  then show ?thesis
    by (subst doListPkgs.simps) simp
qed

lemma scan_flag:
  "snd (fold (scanEntry os base pat exts recursive) fis (acc, ns)) = (ns \<and> \<not> hasSourceFile exts fis)"
  by (induction fis arbitrary: acc ns) (auto simp: scanEntry_def hasSourceFile_def)

lemma scan_paths_dirs:
  "fst (fold (scanEntry os base pat exts recursive) fis (acc, ns)) =
   fst (fold (scanEntry os base pat exts recursive) (filter IsDir fis) (acc, True))"
  by (induction fis arbitrary: acc ns) (auto simp: scanEntry_def)

lemma scan_paths_flat:
  "\<not> recursive \<Longrightarrow> fst (fold (scanEntry os base pat exts recursive) fis (acc, ns)) = acc"
  by (induction fis arbitrary: acc ns) (auto simp: scanEntry_def)

lemma doListPkgs_readable:
  assumes "ReadDir os pat = (fis, None)"
  shows "doListPkgs os pkgPaths base pat exts recursive =
     (fst (fold (scanEntry os base pat exts recursive) fis (pkgPaths, True))
        @ (if hasSourceFile exts fis then [base] else []), None)"
proof -
  obtain pp ns where f: "fold (scanEntry os base pat exts recursive) fis (pkgPaths, True) = (pp, ns)"
    by (cases "fold (scanEntry os base pat exts recursive) fis (pkgPaths, True)")
  from f have "ns = (\<not> hasSourceFile exts fis)"
    using scan_flag [of os base pat exts recursive fis pkgPaths True] by simp
  with f assms show ?thesis
    by (simp add: doListPkgs_scan)
qed

subsection \<open>Listing\<close>

text \<open>
  C1 (as amended). For the module root \<^verbatim>\<open>/m\<close> with module path \<^verbatim>\<open>example.com/m\<close>
  that holds \<^verbatim>\<open>/m/a/x.go\<close> and \<^verbatim>\<open>/m/b/sub/y.go\<close> and nothing else, with the working
  directory at the module root, \<^verbatim>\<open>List\<close> with the single pattern \<^verbatim>\<open>./...\<close> returns
  exactly \<^verbatim>\<open>example.com/m/a\<close> and \<^verbatim>\<open>example.com/m/b/sub\<close>, in this order, and no
  error: the root and \<^verbatim>\<open>b\<close> hold no source file of their own and are left out.
\<close>

theorem List_example_module:
  "List (exampleTree cx cy) (Some exampleConf) [''./...''] =
     ([''example.com/m/a'', ''example.com/m/b/sub''], None)"
  by code_simp

text \<open>The list that names the module root instead of \<^verbatim>\<open>a\<close> is not what is returned.\<close>

theorem List_example_module_counterexample:
  "List (exampleTree [] []) (Some exampleConf) [''./...''] \<noteq>
     ([''example.com/m'', ''example.com/m/b/sub''], None)"
  by code_simp

text \<open>
  C2. When the directory \<open>pat\<close> can be read, with listing \<open>fis\<close>, the scan returns the
  paths that the scans of its subdirectories gave, followed by the base path exactly
  when the listing itself has a source file; files further down play no part in that.
  For a scan that is not recursive the result is the paths it was given, followed by
  the base path exactly when the listing has a source file, so a directory without one
  adds nothing.
\<close>

theorem base_appended_iff_direct_source_file:
  assumes "ReadDir os pat = (fis, None)"
  shows "doListPkgs os pkgPaths base pat exts recursive =
           (fst (fold (scanEntry os base pat exts recursive) (filter IsDir fis) (pkgPaths, True))
              @ (if hasSourceFile exts fis then [base] else []), None)
         \<and> (\<not> recursive \<longrightarrow>
              doListPkgs os pkgPaths base pat exts recursive =
                (pkgPaths @ (if hasSourceFile exts fis then [base] else []), None))"
proof (intro conjI impI)
  show "doListPkgs os pkgPaths base pat exts recursive =
           (fst (fold (scanEntry os base pat exts recursive) (filter IsDir fis) (pkgPaths, True))
              @ (if hasSourceFile exts fis then [base] else []), None)"
    by (simp only: doListPkgs_readable [OF assms]
          scan_paths_dirs [of os base pat exts recursive fis pkgPaths True])
next
  assume "\<not> recursive"
  then show "doListPkgs os pkgPaths base pat exts recursive =
                (pkgPaths @ (if hasSourceFile exts fis then [base] else []), None)"
    using scan_paths_flat [of recursive os base pat exts fis pkgPaths True]
    by (simp add: doListPkgs_readable [OF assms])
qed


theorem base_appended_iff_direct_source_file_witness:
  "ReadDir (exampleTree [] []) ''/m/b'' = ([DirEntry ''sub'' True], None)
   \<and> doListPkgs (exampleTree [] []) [''p''] ''example.com/m/b'' ''/m/b'' {''.go''} True
       = ([''p'', ''example.com/m/b/sub''], None)
   \<and> doListPkgs (exampleTree [] []) [''p''] ''example.com/m/b'' ''/m/b'' {''.go''} False
       = ([''p''], None)"
proof -
  have r: "ReadDir (exampleTree [] []) ''/m/b'' = ([DirEntry ''sub'' True], None)"
    by code_simp
  have s: "fst (fold (scanEntry (exampleTree [] []) ''example.com/m/b'' ''/m/b'' {''.go''} True)
             (filter IsDir [DirEntry ''sub'' True]) ([''p''], True)) = [''p'', ''example.com/m/b/sub'']"
    by code_simp
  have h: "\<not> hasSourceFile {''.go''} [DirEntry ''sub'' True]"
    by code_simp
  note t = base_appended_iff_direct_source_file [OF r, of "[''p'']" "''example.com/m/b''" "{''.go''}"]
  from t [of True, THEN conjunct1] have a: "doListPkgs (exampleTree [] []) [''p''] ''example.com/m/b'' ''/m/b'' {''.go''} True
       = ([''p'', ''example.com/m/b/sub''], None)"
    unfolding s using h by simp
  from t [of False, THEN conjunct2] have b: "doListPkgs (exampleTree [] []) [''p''] ''example.com/m/b'' ''/m/b'' {''.go''} False
       = ([''p''], None)"
    using h by simp
  from r a b show ?thesis by simp
qed


subsection \<open>Patterns\<close>

lemma listLoop_append:
  "listLoop os conf modRoot acc (ps @ qs) =
     (case listLoop os conf modRoot acc ps of
        (acc', Some err) \<Rightarrow> (acc', Some err)
      | (acc', None) \<Rightarrow> listLoop os conf modRoot acc' qs)"
  by (induction ps arbitrary: acc) (auto split: prod.splits option.splits)

lemma List_append:
  "List os (Some conf) ps = (acc, None) \<Longrightarrow>
   List os (Some conf) (ps @ qs) = listLoop os conf (absModRoot os conf) acc qs"
  by (simp add: List_def listLoop_append absModRoot_def Let_def)


lemma listPkgs_unfold:
  "listPkgs os p pkgPaths pat modRoot =
     (if isFsPattern pat then
        (case Abs os (patDir pat) of (patAbs, err1) \<Rightarrow>
         case Rel modRoot patAbs of (patRel, err2) \<Rightarrow>
           if err1 \<noteq> None \<or> err2 \<noteq> None \<or> HasPrefix patRel ''..''
           then ([], Some (ErrorString (''directory `'' @ patDir pat @ ''` outside available modules'')))
           else doListPkgs os pkgPaths (Join [ModPath p, ToSlash patRel]) (patDir pat)
                  (case SupportedExts p of None \<Rightarrow> defaultSupportedExts | Some e \<Rightarrow> e)
                  (HasSuffix pat multi))
      else (pkgPaths @ [patDir pat], None))"
  by (simp only: listPkgs_def patDir_def isFsPattern_def Let_def)

lemma listPkgs_outside:
  assumes "isFsPattern pat" and "outsideModule os modRoot pat"
  shows "listPkgs os p pkgPaths pat modRoot =
     ([], Some (ErrorString (''directory `'' @ patDir pat @ ''` outside available modules'')))"
proof -
  obtain patAbs err1 where a: "Abs os (patDir pat) = (patAbs, err1)"
    by (cases "Abs os (patDir pat)")
  obtain patRel err2 where r: "Rel modRoot patAbs = (patRel, err2)"
    by (cases "Rel modRoot patAbs")
  from assms(2) a r have "err1 \<noteq> None \<or> err2 \<noteq> None \<or> HasPrefix patRel ''..''"
    by (simp add: outsideModule_def)
  with assms(1) a r show ?thesis
    by (simp only: listPkgs_unfold if_True prod.case)
qed

lemma listPkgs_inside:
  assumes "isFsPattern pat" and "\<not> outsideModule os modRoot pat"
  shows "listPkgs os p pkgPaths pat modRoot =
     doListPkgs os pkgPaths (Join [ModPath p, ToSlash (fst (Rel modRoot (fst (Abs os (patDir pat)))))])
       (patDir pat) (case SupportedExts p of None \<Rightarrow> defaultSupportedExts | Some e \<Rightarrow> e)
       (HasSuffix pat multi)"
proof -
  obtain patAbs err1 where a: "Abs os (patDir pat) = (patAbs, err1)"
    by (cases "Abs os (patDir pat)")
  obtain patRel err2 where r: "Rel modRoot patAbs = (patRel, err2)"
    by (cases "Rel modRoot patAbs")
  from assms(2) a r have "\<not> (err1 \<noteq> None \<or> err2 \<noteq> None \<or> HasPrefix patRel ''..'')"
    by (simp add: outsideModule_def)
  with assms(1) a r show ?thesis
    by (simp only: listPkgs_unfold if_True if_False prod.case fst_conv)
qed

lemma take_HasPrefix: "take n s \<noteq> [] \<Longrightarrow> HasPrefix (take n s) [c] = HasPrefix s [c]"
  by (cases s; cases n) (auto simp: HasPrefix_def)

lemma bare_stripped:
  assumes "\<not> HasPrefix pat ''/''" and "HasSuffix pat multi"
  shows "take (length pat - length multi) pat \<noteq> []"
proof
  assume e: "take (length pat - length multi) pat = []"
  have lm: "length multi = 4" by (simp add: multi_def)
  from assms(2) have le: "4 \<le> length pat" and d: "drop (length pat - 4) pat = ''/...''"
    unfolding HasSuffix_def lm by (simp_all add: multi_def)
  from e le have "length pat - 4 = 0"
    unfolding lm by (cases pat) simp_all
  with d have "pat = ''/...''" by simp
  with assms(1) show False by (simp add: HasPrefix_def)
qed

lemma patDir_bare:
  assumes "\<not> HasPrefix pat ''.''" and "\<not> HasPrefix pat ''/''"
  shows "patDir pat = (if HasSuffix pat ''/...'' then take (length pat - 4) pat else pat)"
    and "\<not> isFsPattern pat"
proof -
  have lm: "length multi = 4" by (simp add: multi_def)
  show p: "patDir pat = (if HasSuffix pat ''/...'' then take (length pat - 4) pat else pat)"
  proof (cases "HasSuffix pat multi")
    case True
    from bare_stripped [OF assms(2) True] True show ?thesis
      by (simp add: patDir_def Let_def lm) (simp add: multi_def)
  next
    case False
    then show ?thesis
      by (simp add: patDir_def) (simp add: multi_def)
  qed
  show "\<not> isFsPattern pat"
  proof (cases "HasSuffix pat multi")
    case True
    from bare_stripped [OF assms(2) True]
    have "HasPrefix (take (length pat - length multi) pat) [c] = HasPrefix pat [c]" for c
      by (rule take_HasPrefix)
    with assms bare_stripped [OF assms(2) True] True show ?thesis
      by (simp add: isFsPattern_def patDir_def Let_def)
  next
    case False
    with assms show ?thesis
      by (simp add: isFsPattern_def patDir_def)
  qed
qed

lemma doListPkgs_unreadable:
  "ReadDir os pat = (fis, Some err) \<Longrightarrow>
   doListPkgs os pkgPaths base pat exts recursive = (pkgPaths, Some err)"
  by (simp add: doListPkgs_scan)

lemma Clean_root: "Clean ''/'' = ''/''"
  by code_simp

lemma Abs_root: "Abs os ''/'' = (''/'', None)"
  by (simp add: Abs_def HasPrefix_def Clean_root)

lemma patDir_root: "patDir ''/...'' = ''/''"
  by code_simp

lemma isFsPattern_root: "isFsPattern ''/...''"
  by code_simp

lemma HasSuffix_root: "HasSuffix ''/...'' multi"
  by code_simp

lemma relLoop_slash: "t \<noteq> [] \<Longrightarrow> relLoop (CHR ''/'' # t) ''/'' = (t, [], [])"
  by (simp add: relLoop.simps [of "CHR ''/'' # t"] relLoop.simps [of t "[]"] firstElem_def)

lemma Rel_root_same: "Clean m = ''/'' \<Longrightarrow> Rel m ''/'' = (''.'', None)"
  by (simp add: Rel_def Clean_root)

lemma Rel_root_other:
  assumes "Clean m \<noteq> ''/''"
  shows "snd (Rel m ''/'') \<noteq> None \<or> HasPrefix (fst (Rel m ''/'')) ''..''"
proof -
  define base where "base = (if Clean m = ''.'' then [] else Clean m)"
  show ?thesis
  proof (cases "base \<noteq> [] \<and> hd base = CHR ''/''")
    case False
    with assms show ?thesis
      by (simp add: Rel_def Clean_root Let_def base_def)
  next
    case True
    then obtain t where b: "base = CHR ''/'' # t"
      by (cases base) auto
    with assms have t: "t \<noteq> []" and c: "Clean m = CHR ''/'' # t"
      by (auto simp: base_def split: if_splits)
    from c t have "Rel m ''/'' =
        (''..'' @ concat (replicate (count_list t CHR ''/'') ''/..''), None)"
      by (simp add: Rel_def Clean_root Let_def relLoop_slash)
    then show ?thesis
      by (simp add: HasPrefix_def)
  qed
qed

lemma outsideModule_root:
  "outsideModule os modRoot ''/...'' = (Clean modRoot \<noteq> ''/'')"
proof (cases "Clean modRoot = ''/''")
  case True
  then show ?thesis
    by (simp add: outsideModule_def patDir_root Abs_root Rel_root_same HasPrefix_def)
next
  case False
  from Rel_root_other [OF False] False show ?thesis
    by (cases "Rel modRoot ''/''") (simp add: outsideModule_def patDir_root Abs_root)
qed

lemma patDir_flat: "\<not> HasSuffix pat multi \<Longrightarrow> patDir pat = pat"
  by (simp add: patDir_def)

lemma doListPkgs_readable_no_error:
  "ReadDir os pat = (fis, None) \<Longrightarrow> snd (doListPkgs os pkgPaths base pat exts recursive) = None"
  by (simp add: doListPkgs_scan split: prod.splits)

text \<open>
  C5 (as amended). When the patterns before it are listed without error and a
  file-system pattern lies outside the module root (it cannot be made absolute, or
  relative to the module root, or its relative path begins with two dots), \<^verbatim>\<open>List\<close>
  stops there, whatever patterns follow, with the error that names the directory of the
  pattern as outside available modules, and it returns no paths with it: those of the
  earlier patterns are dropped.
\<close>

theorem outside_module_aborts:
  assumes "List os (Some conf) ps = (acc, None)"
    and "isFsPattern pat"
    and "outsideModule os (absModRoot os conf) pat"
  shows "List os (Some conf) (ps @ pat # rest) =
           ([], Some (ErrorString (''directory `'' @ patDir pat @ ''` outside available modules'')))"
  by (simp add: List_append [OF assms(1)] listPkgs_outside [OF assms(2,3)])


theorem outside_module_aborts_witness:
  "List (exampleTree [] []) (Some exampleConf) [''fmt''] = ([''fmt''], None)
   \<and> isFsPattern ''../x/...''
   \<and> outsideModule (exampleTree [] []) (absModRoot (exampleTree [] []) exampleConf) ''../x/...''
   \<and> List (exampleTree [] []) (Some exampleConf) ([''fmt''] @ ''../x/...'' # [''./a'']) =
         ([], Some (ErrorString ''directory `../x` outside available modules''))"
proof -
  have a: "List (exampleTree [] []) (Some exampleConf) [''fmt''] = ([''fmt''], None)"
    by code_simp
  have b: "isFsPattern ''../x/...''"
    by code_simp
  have c: "outsideModule (exampleTree [] []) (absModRoot (exampleTree [] []) exampleConf) ''../x/...''"
    by code_simp
  have d: "patDir ''../x/...'' = ''../x''"
    by code_simp
  from outside_module_aborts [OF a b c, of "[''./a'']"] have
    "List (exampleTree [] []) (Some exampleConf) ([''fmt''] @ ''../x/...'' # [''./a'']) =
         ([], Some (ErrorString ''directory `../x` outside available modules''))"
    unfolding d by simp
  with a b c show ?thesis by (intro conjI)
qed

text \<open>
  The path \<^verbatim>\<open>fmt\<close> of the first pattern is not returned with the error of the second.
\<close>

theorem outside_module_keeps_paths_counterexample:
  "List (exampleTree [] []) (Some exampleConf) [''fmt''] = ([''fmt''], None)
   \<and> List (exampleTree [] []) (Some exampleConf) [''fmt'', ''../x''] =
         ([], Some (ErrorString ''directory `../x` outside available modules''))"
  by code_simp

text \<open>
  C6 (as amended). For a pattern that begins with neither a dot nor a slash,
  \<^verbatim>\<open>listPkgs\<close> appends the pattern without its recursive marker \<^verbatim>\<open>/...\<close> (so the
  pattern itself when it has none) and returns no error, whatever the file system is;
  \<^verbatim>\<open>List\<close> therefore appends just that to what the earlier patterns gave.
\<close>

theorem bare_pattern_appended:
  assumes "\<not> HasPrefix pat ''.''" and "\<not> HasPrefix pat ''/''"
  shows "listPkgs os p pkgPaths pat modRoot =
           (pkgPaths @ [if HasSuffix pat ''/...'' then take (length pat - 4) pat else pat], None)
         \<and> (List os (Some conf) ps = (acc, None) \<longrightarrow>
              List os (Some conf) (ps @ [pat]) =
                (acc @ [if HasSuffix pat ''/...'' then take (length pat - 4) pat else pat], None))"
proof (intro conjI impI)
  show l: "listPkgs os p pkgPaths pat modRoot =
           (pkgPaths @ [if HasSuffix pat ''/...'' then take (length pat - 4) pat else pat], None)"
    for p pkgPaths modRoot
    using patDir_bare [OF assms] by (simp only: listPkgs_unfold if_False)
  assume "List os (Some conf) ps = (acc, None)"
  then show "List os (Some conf) (ps @ [pat]) =
                (acc @ [if HasSuffix pat ''/...'' then take (length pat - 4) pat else pat], None)"
    by (simp add: List_append l)
qed


theorem bare_pattern_appended_witness:
  "\<not> HasPrefix ''fmt/...'' ''.'' \<and> \<not> HasPrefix ''fmt/...'' ''/''
   \<and> listPkgs (exampleTree [] []) exampleConf [''p''] ''fmt/...'' ''/m'' = ([''p'', ''fmt''], None)
   \<and> List (exampleTree [] []) (Some exampleConf) [''./a''] = ([''example.com/m/a''], None)
   \<and> List (exampleTree [] []) (Some exampleConf) ([''./a''] @ [''fmt/...'']) =
        ([''example.com/m/a'', ''fmt''], None)"
proof -
  have a: "\<not> HasPrefix ''fmt/...'' ''.''" and b: "\<not> HasPrefix ''fmt/...'' ''/''"
    by (simp_all add: HasPrefix_def)
  have c: "List (exampleTree [] []) (Some exampleConf) [''./a''] = ([''example.com/m/a''], None)"
    by code_simp
  have d: "HasSuffix ''fmt/...'' ''/...''"
    by (simp add: HasSuffix_def)
  have e: "take (length ''fmt/...'' - 4) ''fmt/...'' = ''fmt''"
    by simp
  note t = bare_pattern_appended [OF a b, of "exampleTree [] []" exampleConf "[''p'']" "''/m''"
      exampleConf "[''./a'']" "[''example.com/m/a'']"]
  from t [THEN conjunct1] d e
  have f: "listPkgs (exampleTree [] []) exampleConf [''p''] ''fmt/...'' ''/m'' = ([''p'', ''fmt''], None)"
    by simp
  from t [THEN conjunct2] c d e
  have g: "List (exampleTree [] []) (Some exampleConf) ([''./a''] @ [''fmt/...'']) =
        ([''example.com/m/a'', ''fmt''], None)"
    by simp
  from a b f c g show ?thesis by (intro conjI)
qed

text \<open>
  A pattern with the recursive marker is not appended unchanged.
\<close>

theorem bare_pattern_unchanged_counterexample:
  "\<not> HasPrefix ''fmt/...'' ''.'' \<and> \<not> HasPrefix ''fmt/...'' ''/''
   \<and> List (exampleTree [] []) (Some exampleConf) [''fmt/...''] = ([''fmt''], None)"
  by code_simp

text \<open>
  C7 (as amended). The pattern \<^verbatim>\<open>/...\<close> names the root directory of the file system,
  not the module root. When the module root, absolute and cleaned, is itself \<^verbatim>\<open>/\<close>,
  \<^verbatim>\<open>List\<close> scans \<^verbatim>\<open>/\<close> recursively under the module path; for every other module
  root it fails with the error that \<^verbatim>\<open>/\<close> is outside available modules.
\<close>

theorem root_pattern_is_filesystem_root:
  "List os (Some conf) [''/...''] =
     (if Clean (absModRoot os conf) = ''/''
      then doListPkgs os [] (Join [ModPath conf, ''.'']) ''/''
             (case SupportedExts conf of None \<Rightarrow> defaultSupportedExts | Some e \<Rightarrow> e) True
      else ([], Some (ErrorString ''directory `/` outside available modules'')))"
proof (cases "Clean (absModRoot os conf) = ''/''")
  case True
  then have "\<not> outsideModule os (absModRoot os conf) ''/...''"
    by (simp add: outsideModule_root)
  from listPkgs_inside [OF isFsPattern_root this, of conf "[]"] True
  have "listPkgs os conf [] ''/...'' (absModRoot os conf) =
          doListPkgs os [] (Join [ModPath conf, ''.'']) ''/''
             (case SupportedExts conf of None \<Rightarrow> defaultSupportedExts | Some e \<Rightarrow> e) True"
    by (simp add: patDir_root Abs_root Rel_root_same ToSlash_def HasSuffix_root)
  with True show ?thesis
    by (simp add: List_def absModRoot_def split: prod.splits option.splits)
next
  case False
  then have "outsideModule os (absModRoot os conf) ''/...''"
    by (simp add: outsideModule_root)
  from listPkgs_outside [OF isFsPattern_root this, of conf "[]"] False show ?thesis
    by (simp add: List_def absModRoot_def patDir_root)
qed


text \<open>
  In the example module \<^verbatim>\<open>/...\<close> is an error, while the recursive scan of the module
  root finds two packages.
\<close>

theorem root_pattern_is_module_root_counterexample:
  "List (exampleTree [] []) (Some exampleConf) [''/...''] =
     ([], Some (ErrorString ''directory `/` outside available modules''))
   \<and> doListPkgs (exampleTree [] []) [] ''example.com/m'' ''/m'' defaultSupportedExts True =
       ([''example.com/m/a'', ''example.com/m/b/sub''], None)"
  by code_simp

text \<open>
  C8. When the directory named by a file-system pattern without the recursive marker,
  inside the module, cannot be read, \<^verbatim>\<open>List\<close> stops with the error of the read and
  the paths listed so far. In a recursive scan, an entry that is a directory and cannot
  be read leaves the paths and the flag of the loop as they were, and the scan of a
  directory that can be read returns no error, whatever fails below it.
\<close>

theorem read_failure_aborts_or_is_swallowed:
  "(List os (Some conf) ps = (acc, None) \<and> isFsPattern pat \<and> \<not> HasSuffix pat multi
      \<and> \<not> outsideModule os (absModRoot os conf) pat \<and> ReadDir os pat = (fis, Some err)
    \<longrightarrow> List os (Some conf) (ps @ pat # rest) = (acc, Some err))
   \<and> (IsDir fi \<and> ReadDir os (dir @ ''/'' @ Name fi) = (fis', Some err')
    \<longrightarrow> scanEntry os base dir exts True fi (pkgPaths, noSouceFile) = (pkgPaths, noSouceFile))
   \<and> (ReadDir os dir = (fis'', None)
    \<longrightarrow> snd (doListPkgs os pkgPaths base dir exts True) = None)"
proof (intro conjI impI)
  assume a: "List os (Some conf) ps = (acc, None) \<and> isFsPattern pat \<and> \<not> HasSuffix pat multi
      \<and> \<not> outsideModule os (absModRoot os conf) pat \<and> ReadDir os pat = (fis, Some err)"
  then have p: "patDir pat = pat" by (simp add: patDir_flat)
  from a have "listPkgs os conf acc pat (absModRoot os conf) = (acc, Some err)"
    by (simp add: listPkgs_inside p doListPkgs_unreadable)
  with a show "List os (Some conf) (ps @ pat # rest) = (acc, Some err)"
    by (simp add: List_append)
next
  assume "IsDir fi \<and> ReadDir os (dir @ ''/'' @ Name fi) = (fis', Some err')"
  then show "scanEntry os base dir exts True fi (pkgPaths, noSouceFile) = (pkgPaths, noSouceFile)"
    by (simp add: scanEntry_def doListPkgs_unreadable)
next
  assume "ReadDir os dir = (fis'', None)"
  then show "snd (doListPkgs os pkgPaths base dir exts True) = None"
    by (rule doListPkgs_readable_no_error)
qed


theorem read_failure_aborts_or_is_swallowed_witness:
  "(List lockedTree (Some exampleConf) [''fmt''] = ([''fmt''], None) \<and> isFsPattern ''./locked''
      \<and> \<not> HasSuffix ''./locked'' multi
      \<and> \<not> outsideModule lockedTree (absModRoot lockedTree exampleConf) ''./locked''
      \<and> ReadDir lockedTree ''./locked'' = ([], Some (PathError ''open'' ''./locked'' EACCES)))
   \<and> List lockedTree (Some exampleConf) ([''fmt''] @ ''./locked'' # [''./a'']) =
        ([''fmt''], Some (PathError ''open'' ''./locked'' EACCES))
   \<and> (IsDir (DirEntry ''locked'' True)
      \<and> ReadDir lockedTree (''.'' @ ''/'' @ Name (DirEntry ''locked'' True)) =
           ([], Some (PathError ''open'' ''./locked'' EACCES)))
   \<and> scanEntry lockedTree ''example.com/m'' ''.'' {''.go''} True (DirEntry ''locked'' True)
        ([''example.com/m/a''], True) = ([''example.com/m/a''], True)
   \<and> ReadDir lockedTree ''.'' =
        ([DirEntry ''a'' True, DirEntry ''locked'' True, DirEntry ''z.go'' False], None)
   \<and> snd (doListPkgs lockedTree [''example.com/m/a''] ''example.com/m'' ''.'' {''.go''} True) = None
   \<and> List lockedTree (Some exampleConf) [''./...''] =
        ([''example.com/m/a'', ''example.com/m''], None)"
proof -
  have a: "List lockedTree (Some exampleConf) [''fmt''] = ([''fmt''], None) \<and> isFsPattern ''./locked''
      \<and> \<not> HasSuffix ''./locked'' multi
      \<and> \<not> outsideModule lockedTree (absModRoot lockedTree exampleConf) ''./locked''
      \<and> ReadDir lockedTree ''./locked'' = ([], Some (PathError ''open'' ''./locked'' EACCES))"
    by code_simp
  have b: "IsDir (DirEntry ''locked'' True)
      \<and> ReadDir lockedTree (''.'' @ ''/'' @ Name (DirEntry ''locked'' True)) =
           ([], Some (PathError ''open'' ''./locked'' EACCES))"
    by code_simp
  have c: "ReadDir lockedTree ''.'' =
        ([DirEntry ''a'' True, DirEntry ''locked'' True, DirEntry ''z.go'' False], None)"
    by code_simp
  have d: "List lockedTree (Some exampleConf) [''./...''] =
        ([''example.com/m/a'', ''example.com/m''], None)"
    by code_simp
  note t = read_failure_aborts_or_is_swallowed [where os = lockedTree and conf = exampleConf
      and ps = "[''fmt'']" and acc = "[''fmt'']" and pat = "''./locked''" and fis = "[]"
      and err = "PathError ''open'' ''./locked'' EACCES" and rest = "[''./a'']"
      and fi = "DirEntry ''locked'' True" and dir = "''.''" and fis' = "[]"
      and err' = "PathError ''open'' ''./locked'' EACCES"
      and base = "''example.com/m''" and exts = "{''.go''}" and pkgPaths = "[''example.com/m/a'']"
      and noSouceFile = True
      and fis'' = "[DirEntry ''a'' True, DirEntry ''locked'' True, DirEntry ''z.go'' False]"]
  from t a have e: "List lockedTree (Some exampleConf) ([''fmt''] @ ''./locked'' # [''./a'']) =
        ([''fmt''], Some (PathError ''open'' ''./locked'' EACCES))"
    by blast
  from t b have f: "scanEntry lockedTree ''example.com/m'' ''.'' {''.go''} True (DirEntry ''locked'' True)
        ([''example.com/m/a''], True) = ([''example.com/m/a''], True)"
    by blast
  from t c have g: "snd (doListPkgs lockedTree [''example.com/m/a''] ''example.com/m'' ''.'' {''.go''} True) = None"
    by blast
  from a e b f c g d show ?thesis by blast
qed


subsection \<open>Importing\<close>

lemma Open_error_PathError:
  "Open os name = (f, Some err) \<Longrightarrow> \<exists>e. err = PathError ''open'' name e"
  by (auto simp: Open_def split: sum.splits list.splits fsnode.splits)

lemma Import_cached:
  "loaded p pkgPath = Some (Some pkg) \<Longrightarrow> complete pkg \<Longrightarrow>
   Import gc os p pkgPath = ((Some pkg, None), p)"
  by (simp add: Import_def)

lemma loadPkgExport_success:
  assumes "readContract gc" and "loadPkgExport gc os p expfile pkgPath = ((ret, None), p')"
  shows "\<exists>pkg. ret = Some pkg \<and> complete pkg \<and> loaded p' pkgPath = Some (Some pkg)"
proof -
  from assms(2) obtain f r imp' where "Read gc r (fset p) (loaded p) pkgPath = ((ret, None), imp')"
    and "p' = p\<lparr>loaded := imp'\<rparr>"
    by (auto simp: loadPkgExport_def split: prod.splits option.splits)
  with assms(1) show ?thesis
    by (auto simp: readContract_def)
qed

lemma Import_success:
  assumes "readContract gc" and "Import gc os p pkgPath = ((ret, None), p')"
  shows "\<exists>pkg. ret = Some pkg \<and> complete pkg \<and> loaded p' pkgPath = Some (Some pkg)"
proof (cases "\<exists>pkg. loaded p pkgPath = Some (Some pkg) \<and> complete pkg")
  case True
  with assms(2) show ?thesis
    by (auto simp: Import_def)
next
  case False
  with assms(2) obtain expfile where "pkgs p pkgPath = Some expfile"
    and "loadPkgExport gc os p expfile pkgPath = ((ret, None), p')"
    by (auto simp: Import_def importExport_def split: option.splits if_splits)
  with assms(1) show ?thesis
    by (auto dest: loadPkgExport_success)
qed

lemma loadPkgExport_error:
  assumes "decodeErrorsOwn gc"
  shows "snd (fst (loadPkgExport gc os p expfile pkgPath)) \<noteq> Some (Errno ENOENT)"
proof (cases "Open os expfile")
  case (Pair f oerr)
  show ?thesis
  proof (cases oerr)
    case (Some err)
    with Pair Open_error_PathError [of os expfile f err] show ?thesis
      by (auto simp: loadPkgExport_def)
  next
    case None
    show ?thesis
    proof (cases "NewReader gc f")
      case nr: (Pair r nerr)
      show ?thesis
      proof (cases nerr)
        case (Some err)
        with assms nr have "err \<noteq> Errno ENOENT"
          by (auto simp: decodeErrorsOwn_def)
        with Pair None nr Some show ?thesis
          by (simp add: loadPkgExport_def)
      next
        case n2: None
        obtain ret rerr imp' where rd: "Read gc r (fset p) (loaded p) pkgPath = ((ret, rerr), imp')"
          by (metis prod.exhaust)
        have "rerr \<noteq> Some (Errno ENOENT)"
        proof
          assume "rerr = Some (Errno ENOENT)"
          with rd have "Read gc r (fset p) (loaded p) pkgPath = ((ret, Some (Errno ENOENT)), imp')"
            by simp
          with assms show False
            unfolding decodeErrorsOwn_def by blast
        qed
        with Pair None nr n2 rd show ?thesis
          by (simp add: loadPkgExport_def)
      qed
    qed
  qed
qed

lemma Import_known_not_ENOENT:
  assumes "decodeErrorsOwn gc" and "pkgs p pkgPath = Some expfile"
  shows "snd (fst (Import gc os p pkgPath)) \<noteq> Some (Errno ENOENT)"
proof (cases "loaded p pkgPath")
  case None
  with assms show ?thesis
    by (simp add: Import_def importExport_def loadPkgExport_error)
next
  case (Some ptr)
  show ?thesis
  proof (cases ptr)
    case None
    with Some show ?thesis by (simp add: Import_def)
  next
    case (Some ret)
    with \<open>loaded p pkgPath = Some ptr\<close> assms show ?thesis
      by (simp add: Import_def importExport_def loadPkgExport_error)
  qed
qed

lemma NewImporter_loaded:
  assumes "NewImporter loadDeps os conf pattern = (Some p, pkgPaths, err)"
  shows "loaded p ''unsafe'' = Some (Some Unsafe)"
proof -
  define c where "c = (case conf of None \<Rightarrow> new_Config | Some c \<Rightarrow> c)"
  obtain ps lerr where l: "List os (Some c) pattern = (ps, lerr)"
    by (cases "List os (Some c) pattern")
  obtain deps derr where d: "loadDeps (getTempDir c) ps = (deps, derr)"
    by (cases "loadDeps (getTempDir c) ps")
  from assms l d show ?thesis
    by (cases lerr; cases derr) (auto simp: NewImporter_def Let_def c_def [symmetric])
qed

lemma doListPkgs_no_panic:
  "snd (doListPkgs os pkgPaths base pat exts recursive) \<noteq> Some NilDereference"
  by (auto simp: doListPkgs_scan ReadDir_def split: prod.splits sum.splits list.splits fsnode.splits)

lemma listPkgs_no_panic:
  "snd (listPkgs os p pkgPaths pat modRoot) \<noteq> Some NilDereference"
proof (cases "isFsPattern pat")
  case True
  then show ?thesis
    by (cases "outsideModule os modRoot pat")
       (simp_all add: listPkgs_outside listPkgs_inside doListPkgs_no_panic)
next
  case False
  then show ?thesis
    by (simp add: listPkgs_unfold)
qed

lemma listLoop_no_panic:
  "snd (listLoop os conf modRoot pkgPaths pattern) \<noteq> Some NilDereference"
proof (induction pattern arbitrary: pkgPaths)
  case Nil
  show ?case by simp
next
  case (Cons pat pattern)
  obtain ps err where l: "listPkgs os conf pkgPaths pat modRoot = (ps, err)"
    by (cases "listPkgs os conf pkgPaths pat modRoot")
  with listPkgs_no_panic [of os conf pkgPaths pat modRoot] have "err \<noteq> Some NilDereference"
    by simp
  with l Cons.IH [of ps] show ?case
    by (cases err) simp_all
qed

lemma readContract_example: "readContract exampleDecoder"
  by (auto simp: readContract_def exampleDecoder_def split: if_splits)

lemma decodeErrorsOwn_example: "decodeErrorsOwn exampleDecoder"
  by (auto simp: decodeErrorsOwn_def exampleDecoder_def split: if_splits fsnode.splits)

lemma Open_example: "Open (exampleTree ''export'' []) ''/m/a/x.go'' = (File ''export'', None)"
  by code_simp

lemma Open_emptyDisk: "Open emptyDisk ''/m/a/x.go'' = (Denied, Some (PathError ''open'' ''/m/a/x.go'' ENOENT))"
  by code_simp

lemma Import_example:
  "Import exampleDecoder (exampleTree ''export'' []) exampleImporter ''example.com/m/a'' =
     ((Some \<lparr>address = length ''export'', path = ''example.com/m/a'', complete = True\<rparr>, None),
      exampleImporter\<lparr>loaded := (loaded exampleImporter)(''example.com/m/a'' \<mapsto>
         Some \<lparr>address = length ''export'', path = ''example.com/m/a'', complete = True\<rparr>)\<rparr>)"
  by (simp add: Import_def importExport_def loadPkgExport_def Open_example exampleDecoder_def
        exampleImporter_def)

lemma NewImporter_example:
  "NewImporter noDeps (exampleTree [] []) (Some exampleConf) [''./a''] =
     (Some \<lparr>pkgs = Map.empty, loaded = [''unsafe'' \<mapsto> Some Unsafe], fset = NewFileSet\<rparr>,
      [''example.com/m/a''], None)"
proof -
  have "List (exampleTree [] []) (Some exampleConf) [''./a''] = ([''example.com/m/a''], None)"
    by code_simp
  then show ?thesis
    by (simp add: NewImporter_def noDeps_def exampleConf_def)
qed

text \<open>
  C3. With a decoder that keeps the contract of \<^verbatim>\<open>gcexportdata.Read\<close>, when \<^verbatim>\<open>Import\<close>
  succeeds for a path, it returns a package, and a second \<^verbatim>\<open>Import\<close> of the same path
  on the importer as the first call left it returns the same package object and leaves
  the importer unchanged, with any file system and any decoder: the export file is not
  opened again and need not exist any more.
\<close>

theorem second_Import_from_cache:
  assumes "readContract gc" and "Import gc os p pkgPath = ((ret, None), p')"
  shows "\<exists>pkg. ret = Some pkg \<and> Import gc' os' p' pkgPath = ((Some pkg, None), p')"
  using Import_success [OF assms] by (auto simp: Import_cached)


theorem second_Import_from_cache_witness:
  "readContract exampleDecoder
   \<and> Import exampleDecoder (exampleTree ''export'' []) exampleImporter ''example.com/m/a'' =
     ((Some \<lparr>address = length ''export'', path = ''example.com/m/a'', complete = True\<rparr>, None),
      exampleImporter\<lparr>loaded := (loaded exampleImporter)(''example.com/m/a'' \<mapsto>
         Some \<lparr>address = length ''export'', path = ''example.com/m/a'', complete = True\<rparr>)\<rparr>)
   \<and> Import exampleDecoder emptyDisk
        (exampleImporter\<lparr>loaded := (loaded exampleImporter)(''example.com/m/a'' \<mapsto>
           Some \<lparr>address = length ''export'', path = ''example.com/m/a'', complete = True\<rparr>)\<rparr>)
        ''example.com/m/a'' =
     ((Some \<lparr>address = length ''export'', path = ''example.com/m/a'', complete = True\<rparr>, None),
      exampleImporter\<lparr>loaded := (loaded exampleImporter)(''example.com/m/a'' \<mapsto>
         Some \<lparr>address = length ''export'', path = ''example.com/m/a'', complete = True\<rparr>)\<rparr>)
   \<and> fst (Import exampleDecoder emptyDisk exampleImporter ''example.com/m/a'') =
        (None, Some (PathError ''open'' ''/m/a/x.go'' ENOENT))"
proof -
  note t = second_Import_from_cache [OF readContract_example Import_example,
      of exampleDecoder emptyDisk]
  then have "Import exampleDecoder emptyDisk
        (exampleImporter\<lparr>loaded := (loaded exampleImporter)(''example.com/m/a'' \<mapsto>
           Some \<lparr>address = length ''export'', path = ''example.com/m/a'', complete = True\<rparr>)\<rparr>)
        ''example.com/m/a'' =
     ((Some \<lparr>address = length ''export'', path = ''example.com/m/a'', complete = True\<rparr>, None),
      exampleImporter\<lparr>loaded := (loaded exampleImporter)(''example.com/m/a'' \<mapsto>
         Some \<lparr>address = length ''export'', path = ''example.com/m/a'', complete = True\<rparr>)\<rparr>)"
    by blast
  moreover have "fst (Import exampleDecoder emptyDisk exampleImporter ''example.com/m/a'') =
        (None, Some (PathError ''open'' ''/m/a/x.go'' ENOENT))"
    by (simp add: Import_def importExport_def loadPkgExport_def Open_emptyDisk exampleImporter_def)
  ultimately show ?thesis
    using readContract_example Import_example by blast
qed

text \<open>
  C4 (as amended). For a path that has no export file in the map \<open>pkgs\<close> and for which
  the cache \<open>loaded\<close> has no entry, or a package that is not nil and not complete,
  \<^verbatim>\<open>Import\<close> fails with the bare error number \<^verbatim>\<open>ENOENT\<close> and leaves the importer as
  it was. For a path that has an export file, with a decoder whose errors are its own,
  \<^verbatim>\<open>Import\<close> never returns that error, whatever goes wrong: a failed open is a
  \<^verbatim>\<open>*PathError\<close> (which may wrap the same error number), and a failed decode is the
  decoder's error.
\<close>

theorem unknown_path_ENOENT:
  "((loaded p pkgPath = None \<or> (\<exists>ret. loaded p pkgPath = Some (Some ret) \<and> \<not> complete ret))
      \<and> pkgs p pkgPath = None
    \<longrightarrow> Import gc os p pkgPath = ((None, Some (Errno ENOENT)), p))
   \<and> (decodeErrorsOwn gc \<and> pkgs p pkgPath = Some expfile
    \<longrightarrow> snd (fst (Import gc os p pkgPath)) \<noteq> Some (Errno ENOENT))"
  by (auto simp: Import_def importExport_def dest: Import_known_not_ENOENT)


theorem unknown_path_ENOENT_witness:
  "((loaded exampleImporter ''example.com/q'' = None
      \<or> (\<exists>ret. loaded exampleImporter ''example.com/q'' = Some (Some ret) \<and> \<not> complete ret))
     \<and> pkgs exampleImporter ''example.com/q'' = None)
   \<and> Import exampleDecoder emptyDisk exampleImporter ''example.com/q'' =
        ((None, Some (Errno ENOENT)), exampleImporter)
   \<and> (decodeErrorsOwn exampleDecoder
     \<and> pkgs exampleImporter ''example.com/m/a'' = Some ''/m/a/x.go'')
   \<and> snd (fst (Import exampleDecoder emptyDisk exampleImporter ''example.com/m/a''))
        \<noteq> Some (Errno ENOENT)
   \<and> fst (Import exampleDecoder emptyDisk exampleImporter ''example.com/m/a'') =
        (None, Some (PathError ''open'' ''/m/a/x.go'' ENOENT))"
proof -
  have a: "(loaded exampleImporter ''example.com/q'' = None
      \<or> (\<exists>ret. loaded exampleImporter ''example.com/q'' = Some (Some ret) \<and> \<not> complete ret))
     \<and> pkgs exampleImporter ''example.com/q'' = None"
    by (simp add: exampleImporter_def)
  have b: "decodeErrorsOwn exampleDecoder
     \<and> pkgs exampleImporter ''example.com/m/a'' = Some ''/m/a/x.go''"
    by (simp add: decodeErrorsOwn_example exampleImporter_def)
  have c: "fst (Import exampleDecoder emptyDisk exampleImporter ''example.com/m/a'') =
        (None, Some (PathError ''open'' ''/m/a/x.go'' ENOENT))"
    by (simp add: Import_def importExport_def loadPkgExport_def Open_emptyDisk exampleImporter_def)
  from unknown_path_ENOENT [of exampleImporter "''example.com/q''" exampleDecoder emptyDisk] a
  have d: "Import exampleDecoder emptyDisk exampleImporter ''example.com/q'' =
        ((None, Some (Errno ENOENT)), exampleImporter)"
    by blast
  from unknown_path_ENOENT [of exampleImporter "''example.com/m/a''" exampleDecoder emptyDisk
      "''/m/a/x.go''"] b
  have e: "snd (fst (Import exampleDecoder emptyDisk exampleImporter ''example.com/m/a''))
        \<noteq> Some (Errno ENOENT)"
    by blast
  from a b c d e show ?thesis by blast
qed

text \<open>
  A nil pointer in the cache, for a path without an export file, is not reported as not
  found: \<^verbatim>\<open>ret.Complete()\<close> panics.
\<close>

theorem nil_cache_entry_counterexample:
  "pkgs nilEntryImporter ''example.com/q'' = None
   \<and> loaded nilEntryImporter ''example.com/q'' = Some None
   \<and> Import exampleDecoder emptyDisk nilEntryImporter ''example.com/q'' =
        ((None, Some NilDereference), nilEntryImporter)"
  by (simp add: nilEntryImporter_def Import_def)

text \<open>
  C9. In every importer that \<^verbatim>\<open>NewImporter\<close> returns the cache holds \<^verbatim>\<open>types.Unsafe\<close>
  for the path \<^verbatim>\<open>unsafe\<close>, and \<^verbatim>\<open>Import\<close> of that path returns it without an error
  and without a change to the importer, with any decoder and file system, and with any
  map of export files \<open>m\<close> in place of the importer's own, the empty one among them.
\<close>

theorem unsafe_always_imported:
  assumes "NewImporter loadDeps os conf pattern = (Some p, pkgPaths, err)"
  shows "loaded p ''unsafe'' = Some (Some Unsafe)
         \<and> Import gc os' p ''unsafe'' = ((Some Unsafe, None), p)
         \<and> Import gc os' (p\<lparr>pkgs := m\<rparr>) ''unsafe'' = ((Some Unsafe, None), p\<lparr>pkgs := m\<rparr>)"
  using NewImporter_loaded [OF assms]
  by (simp add: Import_def Unsafe_def)


theorem unsafe_always_imported_witness:
  "NewImporter noDeps (exampleTree [] []) (Some exampleConf) [''./a''] =
     (Some \<lparr>pkgs = Map.empty, loaded = [''unsafe'' \<mapsto> Some Unsafe], fset = NewFileSet\<rparr>,
      [''example.com/m/a''], None)
   \<and> Import exampleDecoder emptyDisk
        \<lparr>pkgs = Map.empty, loaded = [''unsafe'' \<mapsto> Some Unsafe], fset = NewFileSet\<rparr> ''unsafe'' =
       ((Some Unsafe, None),
        \<lparr>pkgs = Map.empty, loaded = [''unsafe'' \<mapsto> Some Unsafe], fset = NewFileSet\<rparr>)"
  using unsafe_always_imported [OF NewImporter_example, of exampleDecoder emptyDisk Map.empty]
    NewImporter_example
  by blast

text \<open>
  C10. With a nil configuration \<^verbatim>\<open>List\<close> and \<^verbatim>\<open>NewImporter\<close> return what they return
  with a fresh configuration whose fields are all zero, for every list of patterns, and
  \<^verbatim>\<open>List\<close> does not end in the panic of a nil dereference.
\<close>

theorem nil_config_is_zero_config:
  "List os None pattern = List os (Some new_Config) pattern
   \<and> NewImporter loadDeps os None pattern = NewImporter loadDeps os (Some new_Config) pattern
   \<and> snd (List os None pattern) \<noteq> Some NilDereference"
  by (simp add: List_def NewImporter_def listLoop_no_panic)


end
